theory Spec2Isabelle
  imports Main "HOL-Library.Word" "HOL-Library.AList"
begin

section \<open>Python values seen by the webhook handler\<close>

text \<open>
  A Python \<open>bytes\<close> object is a list of 8-bit words; a Python \<open>str\<close> is a list of Unicode
  code points (HOL's \<open>char\<close> is a byte, so it cannot stand for a code point).  String
  literals of the source are written with \<open>lit\<close>.
\<close>

type_synonym byte = "8 word"
type_synonym pystr = "nat list"

definition lit :: "string \<Rightarrow> pystr" where
  "lit s = map of_char s"

text \<open>The exceptions (all subclasses of \<open>Exception\<close>) that the calls of the handler raise.\<close>

datatype exn = JSONDecodeError | UnicodeDecodeError | TypeError | KeyError | ValueError
  | RecursionError

text \<open>
  A Python float is kept abstract: \<open>'f\<close> is the type of the finite doubles, and the three
  special values are constructors, because \<open>json.dumps\<close> and \<open>repr\<close> print them apart.
\<close>

datatype 'f pyfloat = Finite 'f | PosInf | NegInf | NaN

text \<open>What \<open>json.loads\<close> returns: \<open>None\<close>, \<open>bool\<close>, \<open>int\<close>, \<open>float\<close>, \<open>str\<close>,
  \<open>list\<close>, and \<open>dict\<close> with \<open>str\<close> keys (in insertion order).\<close>

datatype 'f json = JNull | JBool bool | JInt int | JFloat "'f pyfloat" | JStr pystr
  | JArray "'f json list" | JObject "(pystr \<times> 'f json) list"

text \<open>The values a variable of the handler typed \<open>Any\<close> holds; a \<open>dict\<close> is the list of
  its items in insertion order, with keys of any type.\<close>

datatype 'f pyval = PNone | PBool bool | PInt int | PFloat "'f pyfloat" | PStr pystr
  | PBytes "byte list" | PList "'f pyval list" | PDict "('f pyval \<times> 'f pyval) list"

primrec of_json :: "'f json \<Rightarrow> 'f pyval" where
  "of_json JNull = PNone"
| "of_json (JBool b) = PBool b"
| "of_json (JInt i) = PInt i"
| "of_json (JFloat x) = PFloat x"
| "of_json (JStr s) = PStr s"
| "of_json (JArray xs) = PList (map of_json xs)"
| "of_json (JObject kvs) = PDict (map (map_prod PStr of_json) kvs)"

text \<open>
  The library the handler calls and that is not part of the repository:
  \<open>json.loads\<close> on the bytes of a body (what \<open>request.json()\<close> of Starlette applies to the
  received body), \<open>float.__repr__\<close> on a finite double and \<open>repr\<close> of a \<open>str\<close>.
\<close>

record 'f pylib =
  json_loads :: "byte list \<Rightarrow> exn + 'f json"
  float_repr :: "'f \<Rightarrow> pystr"
  str_repr :: "pystr \<Rightarrow> pystr"

section \<open>\<open>bytes.decode("utf-8")\<close>\<close>

definition cont :: "byte \<Rightarrow> bool" where
  "cont b = (0x80 \<le> b \<and> b \<le> 0xBF)"

definition second3 :: "byte \<Rightarrow> byte \<Rightarrow> bool" where
  "second3 b0 b1 =
     (if b0 = 0xE0 then 0xA0 \<le> b1 \<and> b1 \<le> 0xBF
      else if b0 = 0xED then 0x80 \<le> b1 \<and> b1 \<le> 0x9F
      else cont b1)"

definition second4 :: "byte \<Rightarrow> byte \<Rightarrow> bool" where
  "second4 b0 b1 =
     (if b0 = 0xF0 then 0x90 \<le> b1 \<and> b1 \<le> 0xBF
      else if b0 = 0xF4 then 0x80 \<le> b1 \<and> b1 \<le> 0x8F
      else cont b1)"

definition low6 :: "byte \<Rightarrow> nat" where
  "low6 b = unat b - 0x80"

text \<open>The strict decoder: shortest forms only, no surrogates, nothing above U+10FFFF.\<close>

fun utf8_decode :: "byte list \<Rightarrow> pystr option" where
  "utf8_decode [] = Some []"
| "utf8_decode (b0 # bs) =
     (if b0 \<le> 0x7F then map_option ((#) (unat b0)) (utf8_decode bs)
      else if 0xC2 \<le> b0 \<and> b0 \<le> 0xDF then
        (case bs of
           b1 # r \<Rightarrow>
             if cont b1
             then map_option ((#) ((unat b0 - 0xC0) * 64 + low6 b1)) (utf8_decode r)
             else None
         | _ \<Rightarrow> None)
      else if 0xE0 \<le> b0 \<and> b0 \<le> 0xEF then
        (case bs of
           b1 # b2 # r \<Rightarrow>
             if second3 b0 b1 \<and> cont b2
             then map_option ((#) ((unat b0 - 0xE0) * 4096 + low6 b1 * 64 + low6 b2))
                    (utf8_decode r)
             else None
         | _ \<Rightarrow> None)
      else if 0xF0 \<le> b0 \<and> b0 \<le> 0xF4 then
        (case bs of
           b1 # b2 # b3 # r \<Rightarrow>
             if second4 b0 b1 \<and> cont b2 \<and> cont b3
             then map_option
                    ((#) ((unat b0 - 0xF0) * 262144 + low6 b1 * 4096 + low6 b2 * 64 + low6 b3))
                    (utf8_decode r)
             else None
         | _ \<Rightarrow> None)
      else None)"

definition bytes_decode_utf8 :: "byte list \<Rightarrow> exn + pystr" where
  "bytes_decode_utf8 raw = (case utf8_decode raw of None \<Rightarrow> Inl UnicodeDecodeError | Some s \<Rightarrow> Inr s)"

section \<open>\<open>str\<close> and \<open>repr\<close> of the builtin values\<close>

fun digits :: "nat \<Rightarrow> pystr" where
  "digits n = (if n < 10 then [48 + n] else digits (n div 10) @ [48 + n mod 10])"

declare digits.simps [simp del]

definition int_repr :: "int \<Rightarrow> pystr" where
  "int_repr i = (if i < 0 then 45 # digits (nat (- i)) else digits (nat i))"

definition hexdigit :: "nat \<Rightarrow> nat" where
  "hexdigit d = (if d < 10 then 48 + d else 87 + d)"

text \<open>\<open>repr\<close> of \<open>bytes\<close>: the quote is \<open>'\<close> unless the bytes hold a \<open>'\<close> and no \<open>"\<close>.\<close>

definition bytes_repr_char :: "nat \<Rightarrow> byte \<Rightarrow> pystr" where
  "bytes_repr_char quote b =
     (let c = unat b in
      if c = quote \<or> c = 92 then [92, c]
      else if c = 9 then [92, 116]
      else if c = 10 then [92, 110]
      else if c = 13 then [92, 114]
      else if c < 32 \<or> 127 \<le> c then [92, 120, hexdigit (c div 16), hexdigit (c mod 16)]
      else [c])"

definition bytes_repr :: "byte list \<Rightarrow> pystr" where
  "bytes_repr b =
     (let quote = (if List.member b 39 \<and> \<not> List.member b 34 then 34 else 39)
      in [98, quote] @ concat (map (bytes_repr_char quote) b) @ [quote])"

fun join :: "pystr \<Rightarrow> pystr list \<Rightarrow> pystr" where
  "join sep [] = []"
| "join sep [x] = x"
| "join sep (x # y # r) = x @ sep @ join sep (y # r)"

definition pyfloat_repr :: "('f \<Rightarrow> pystr) \<Rightarrow> 'f pyfloat \<Rightarrow> pystr" where
  "pyfloat_repr fr x =
     (case x of Finite d \<Rightarrow> fr d | PosInf \<Rightarrow> lit ''inf'' | NegInf \<Rightarrow> lit ''-inf''
      | NaN \<Rightarrow> lit ''nan'')"

fun py_repr :: "'f pylib \<Rightarrow> 'f pyval \<Rightarrow> pystr" where
  "py_repr lib PNone = lit ''None''"
| "py_repr lib (PBool b) = (if b then lit ''True'' else lit ''False'')"
| "py_repr lib (PInt i) = int_repr i"
| "py_repr lib (PFloat x) = pyfloat_repr (float_repr lib) x"
| "py_repr lib (PStr s) = str_repr lib s"
| "py_repr lib (PBytes b) = bytes_repr b"
| "py_repr lib (PList xs) = lit ''['' @ join (lit '', '') (map (py_repr lib) xs) @ lit '']''"
| "py_repr lib (PDict kvs) =
     lit ''{'' @
     join (lit '', '')
       (map (\<lambda>kv. py_repr lib (fst kv) @ lit '': '' @ py_repr lib (snd kv)) kvs) @
     lit ''}''"

definition py_str :: "'f pylib \<Rightarrow> 'f pyval \<Rightarrow> pystr" where
  "py_str lib v = (case v of PStr s \<Rightarrow> s | _ \<Rightarrow> py_repr lib v)"

section \<open>\<open>json.dumps(body, ensure_ascii=False, default=str)\<close>\<close>

text \<open>With \<open>ensure_ascii=False\<close> only the quote, the backslash and the control characters
  below U+0020 are escaped.\<close>

definition escape_char :: "nat \<Rightarrow> pystr" where
  "escape_char c =
     (if c = 92 then [92, 92]
      else if c = 34 then [92, 34]
      else if c = 8 then [92, 98]
      else if c = 12 then [92, 102]
      else if c = 10 then [92, 110]
      else if c = 13 then [92, 114]
      else if c = 9 then [92, 116]
      else if c < 32 then [92, 117, 48, 48, hexdigit (c div 16), hexdigit (c mod 16)]
      else [c])"

definition encode_basestring :: "pystr \<Rightarrow> pystr" where
  "encode_basestring s = [34] @ concat (map escape_char s) @ [34]"

definition floatstr :: "('f \<Rightarrow> pystr) \<Rightarrow> 'f pyfloat \<Rightarrow> pystr" where
  "floatstr fr x =
     (case x of Finite d \<Rightarrow> fr d | PosInf \<Rightarrow> lit ''Infinity'' | NegInf \<Rightarrow> lit ''-Infinity''
      | NaN \<Rightarrow> lit ''NaN'')"

text \<open>A key of a \<open>dict\<close> must be \<open>str\<close>, \<open>int\<close>, \<open>float\<close>, \<open>bool\<close> or \<open>None\<close>; \<open>default\<close> is
  not applied to keys, and any other key raises \<open>TypeError\<close>.\<close>

definition key_str :: "('f \<Rightarrow> pystr) \<Rightarrow> 'f pyval \<Rightarrow> exn + pystr" where
  "key_str fr k =
     (case k of
        PStr s \<Rightarrow> Inr s
      | PFloat x \<Rightarrow> Inr (floatstr fr x)
      | PBool b \<Rightarrow> Inr (if b then lit ''true'' else lit ''false'')
      | PNone \<Rightarrow> Inr (lit ''null'')
      | PInt i \<Rightarrow> Inr (int_repr i)
      | _ \<Rightarrow> Inl TypeError)"

text \<open>The first exception raised while the elements are encoded in order.\<close>

fun collect :: "(exn + 'a) list \<Rightarrow> exn + 'a list" where
  "collect [] = Inr []"
| "collect (Inl e # rs) = Inl e"
| "collect (Inr x # rs) = (case collect rs of Inl e \<Rightarrow> Inl e | Inr xs \<Rightarrow> Inr (x # xs))"

text \<open>The encoder.  An object of no JSON type (here: \<open>bytes\<close>) goes through
  \<open>default=str\<close>, and the \<open>str\<close> it returns is encoded in its place.\<close>

fun json_encode :: "('f \<Rightarrow> pystr) \<Rightarrow> 'f pyval \<Rightarrow> exn + pystr" where
  "json_encode fr (PStr s) = Inr (encode_basestring s)"
| "json_encode fr PNone = Inr (lit ''null'')"
| "json_encode fr (PBool b) = Inr (if b then lit ''true'' else lit ''false'')"
| "json_encode fr (PInt i) = Inr (int_repr i)"
| "json_encode fr (PFloat x) = Inr (floatstr fr x)"
| "json_encode fr (PList xs) =
     (case collect (map (json_encode fr) xs) of
        Inl e \<Rightarrow> Inl e
      | Inr ss \<Rightarrow> Inr (lit ''['' @ join (lit '', '') ss @ lit '']''))"
| "json_encode fr (PDict kvs) =
     (case collect
             (map (\<lambda>kv. case key_str fr (fst kv) of
                           Inl e \<Rightarrow> Inl e
                         | Inr k \<Rightarrow>
                             (case json_encode fr (snd kv) of
                                Inl e \<Rightarrow> Inl e
                              | Inr s \<Rightarrow> Inr (encode_basestring k @ lit '': '' @ s)))
                kvs) of
        Inl e \<Rightarrow> Inl e
      | Inr ss \<Rightarrow> Inr (lit ''{'' @ join (lit '', '') ss @ lit ''}''))"
| "json_encode fr (PBytes b) = Inr (encode_basestring (bytes_repr b))"

definition json_dumps :: "'f pylib \<Rightarrow> 'f pyval \<Rightarrow> exn + pystr" where
  "json_dumps lib body = json_encode (float_repr lib) body"

section \<open>The logger of the module\<close>

definition APP_NAME :: string where
  "APP_NAME = ''bettervoice-webhook''"

definition INFO :: nat where
  "INFO = 20"

text \<open>\<open>logging._nameToLevel\<close>.\<close>

definition nameToLevel :: "string \<Rightarrow> nat option" where
  "nameToLevel n =
     map_of [(''CRITICAL'', 50), (''FATAL'', 50), (''ERROR'', 40), (''WARN'', 30),
             (''WARNING'', 30), (''INFO'', 20), (''DEBUG'', 10), (''NOTSET'', 0)] n"

text \<open>A logger: its own level, and the effective level of its parent (the root logger),
  which counts when its own level is \<open>NOTSET\<close>.\<close>

record logger =
  logger_name :: string
  level :: nat
  parent_level :: nat

text \<open>Lines 15 to 17: \<open>LOG_LEVEL\<close> is the environment variable in upper case (\<open>INFO\<close>
  when it is not set); \<open>setLevel\<close> raises \<open>ValueError\<close> on a name that is no level.\<close>

definition module_logger :: "string \<Rightarrow> nat \<Rightarrow> exn + logger" where
  "module_logger LOG_LEVEL root_level =
     (case nameToLevel LOG_LEVEL of
        None \<Rightarrow> Inl ValueError
      | Some l \<Rightarrow> Inr \<lparr>logger_name = APP_NAME, level = l, parent_level = root_level\<rparr>)"

definition getEffectiveLevel :: "logger \<Rightarrow> nat" where
  "getEffectiveLevel lg = (if level lg \<noteq> 0 then level lg else parent_level lg)"

definition isEnabledFor :: "logger \<Rightarrow> nat \<Rightarrow> bool" where
  "isEnabledFor lg lvl = (getEffectiveLevel lg \<le> lvl)"

record 'f log_record =
  rec_name :: string
  levelno :: nat
  levelname :: string
  msg :: string
  extra :: "(string \<times> 'f pyval) list"

text \<open>The attributes of a \<open>LogRecord\<close> that a key of \<open>extra\<close> must not overwrite.\<close>

definition reserved_attrs :: "string list" where
  "reserved_attrs =
     [''message'', ''asctime'', ''name'', ''msg'', ''args'', ''levelname'', ''levelno'',
      ''pathname'', ''filename'', ''module'', ''exc_info'', ''exc_text'', ''stack_info'',
      ''lineno'', ''funcName'', ''created'', ''msecs'', ''relativeCreated'', ''thread'',
      ''threadName'', ''processName'', ''process'', ''taskName'']"

definition makeRecord ::
  "logger \<Rightarrow> nat \<Rightarrow> string \<Rightarrow> string \<Rightarrow> (string \<times> 'f pyval) list \<Rightarrow> exn + 'f log_record" where
  "makeRecord lg lvl lvlname m ex =
     (if list_ex (\<lambda>kv. List.member reserved_attrs (fst kv)) ex then Inl KeyError
      else Inr \<lparr>rec_name = logger_name lg, levelno = lvl, levelname = lvlname, msg = m,
                extra = ex\<rparr>)"

text \<open>\<open>logger.info(msg, extra=...)\<close>: the records handed to the handlers of the logger.\<close>

definition logger_info ::
  "logger \<Rightarrow> string \<Rightarrow> (string \<times> 'f pyval) list \<Rightarrow> exn + 'f log_record list" where
  "logger_info lg m ex =
     (if isEnabledFor lg INFO
      then (case makeRecord lg INFO ''INFO'' m ex of Inl e \<Rightarrow> Inl e | Inr r \<Rightarrow> Inr [r])
      else Inr [])"

section \<open>The request and the response\<close>

record address =
  host :: pystr
  port :: nat

text \<open>A delivered request: \<open>request.client\<close>, \<open>request.headers.items()\<close> and the bytes
  that \<open>request.body()\<close> returns.\<close>

record request =
  req_client :: "address option"
  req_headers :: "(pystr \<times> pystr) list"
  req_body :: "byte list"

record 'f response =
  status_code :: nat
  content :: "'f pyval"

definition JSONResponse :: "'f pyval \<Rightarrow> 'f response" where
  "JSONResponse c = \<lparr>status_code = 200, content = c\<rparr>"

text \<open>\<open>request.json()\<close> is \<open>json.loads\<close> of the body; \<open>request.body()\<close> returns the body
  already read.\<close>

definition request_json :: "'f pylib \<Rightarrow> request \<Rightarrow> exn + 'f pyval" where
  "request_json lib request = map_sum id of_json (json_loads lib (req_body request))"

definition request_body :: "request \<Rightarrow> exn + byte list" where
  "request_body request = Inr (req_body request)"

section \<open>\<open>receive_webhook\<close>\<close>

text \<open>The dict comprehension of line 52: a later item of the same key replaces the value
  and keeps the place of the first.\<close>

definition dict_of_items :: "('k \<times> 'v) list \<Rightarrow> ('k \<times> 'v) list" where
  "dict_of_items items = foldl (\<lambda>d kv. AList.update (fst kv) (snd kv) d) [] items"

text \<open>Lines 54 to 67, the decode ladder: the pair of \<open>body\<close> and \<open>body_type\<close>.\<close>

definition decode_body :: "'f pylib \<Rightarrow> request \<Rightarrow> exn + ('f pyval \<times> string)" where
  "decode_body lib request =
     (case request_json lib request of
        Inr body \<Rightarrow> Inr (body, ''json'')
      | Inl _ \<Rightarrow>
          (case request_body request of
             Inl e \<Rightarrow> Inl e
           | Inr raw \<Rightarrow>
               (case bytes_decode_utf8 raw of
                  Inr body \<Rightarrow> Inr (PStr body, ''text'')
                | Inl _ \<Rightarrow> Inr (PBytes raw, ''bytes''))))"

text \<open>Lines 69 to 73.\<close>

definition serialize_body :: "'f pylib \<Rightarrow> 'f pyval \<Rightarrow> exn + pystr" where
  "serialize_body lib body =
     (case json_dumps lib body of
        Inr serialized_body \<Rightarrow> Inr serialized_body
      | Inl _ \<Rightarrow> Inr (py_str lib body))"

definition log_extra ::
  "pystr option \<Rightarrow> (pystr \<times> pystr) list \<Rightarrow> string \<Rightarrow> pystr \<Rightarrow> (string \<times> 'f pyval) list" where
  "log_extra client_ip headers body_type serialized_body =
     [(''source'', PStr (lit ''bettervoice'')),
      (''client_ip'', (case client_ip of None \<Rightarrow> PNone | Some h \<Rightarrow> PStr h)),
      (''headers'', PDict (map (map_prod PStr PStr) headers)),
      (''body_type'', PStr (lit body_type)),
      (''body'', PStr serialized_body)]"

definition ack :: "'f pyval" where
  "ack = PDict [(PStr (lit ''received''), PBool True), (PStr (lit ''status''), PStr (lit ''ok''))]"

text \<open>The handler: the records handed to the logger's handlers, and the response; \<open>Inl\<close>
  is an exception that leaves the handler.\<close>

definition receive_webhook ::
  "'f pylib \<Rightarrow> logger \<Rightarrow> request \<Rightarrow> exn + ('f log_record list \<times> 'f response)" where
  "receive_webhook lib lg request =
     (let client_ip = (case req_client request of None \<Rightarrow> None | Some a \<Rightarrow> Some (host a));
          headers = dict_of_items (req_headers request)
      in case decode_body lib request of
           Inl e \<Rightarrow> Inl e
         | Inr (body, body_type) \<Rightarrow>
             (case serialize_body lib body of
                Inl e \<Rightarrow> Inl e
              | Inr serialized_body \<Rightarrow>
                  (case logger_info lg ''Received webhook event''
                          (log_extra client_ip headers body_type serialized_body) of
                     Inl e \<Rightarrow> Inl e
                   | Inr emitted \<Rightarrow> Inr (emitted, JSONResponse ack))))"

section \<open>The decoder of the \<open>json\<close> module\<close>

text \<open>
  A model of \<open>json.loads\<close> on a \<open>str\<close>, after \<open>json/decoder.py\<close> and \<open>json/scanner.py\<close>
  of CPython with the default hooks (\<open>strict=True\<close>, no \<open>object_hook\<close>): white space is
  the four characters space, tab, line feed and carriage return.
\<close>

definition is_ws :: "nat \<Rightarrow> bool" where
  "is_ws c = (c = 32 \<or> c = 9 \<or> c = 10 \<or> c = 13)"

definition skip_ws :: "pystr \<Rightarrow> pystr" where
  "skip_ws s = dropWhile is_ws s"

definition is_digit :: "nat \<Rightarrow> bool" where
  "is_digit c = (48 \<le> c \<and> c \<le> 57)"

text \<open>\<open>_decode_uXXXX\<close>: four hexadecimal digits after \<open>\\u\<close>.\<close>

definition hexval :: "nat \<Rightarrow> nat option" where
  "hexval c =
     (if 48 \<le> c \<and> c \<le> 57 then Some (c - 48)
      else if 97 \<le> c \<and> c \<le> 102 then Some (c - 87)
      else if 65 \<le> c \<and> c \<le> 70 then Some (c - 55)
      else None)"

definition decode_uXXXX :: "pystr \<Rightarrow> nat option" where
  "decode_uXXXX s =
     (case s of
        a # b # c # d # _ \<Rightarrow>
          (case (hexval a, hexval b, hexval c, hexval d) of
             (Some w, Some x, Some y, Some z) \<Rightarrow> Some (((w * 16 + x) * 16 + y) * 16 + z)
           | _ \<Rightarrow> None)
      | _ \<Rightarrow> None)"

text \<open>The table \<open>BACKSLASH\<close> of the one-letter escapes.\<close>

definition unescape :: "nat \<Rightarrow> nat option" where
  "unescape e =
     (if e = 34 then Some 34
      else if e = 92 then Some 92
      else if e = 47 then Some 47
      else if e = 98 then Some 8
      else if e = 102 then Some 12
      else if e = 110 then Some 10
      else if e = 114 then Some 13
      else if e = 116 then Some 9
      else None)"

definition consc :: "'a \<Rightarrow> ('a list \<times> 'b) option \<Rightarrow> ('a list \<times> 'b) option" where
  "consc x r = map_option (apfst ((#) x)) r"

text \<open>
  \<open>scanstring\<close>, from the character after the opening quote: the content and what
  follows the closing quote.  A control character below U+0020 is refused; a high
  surrogate escape followed by a low surrogate escape is one code point.
\<close>

fun scanstring :: "pystr \<Rightarrow> (pystr \<times> pystr) option" where
  "scanstring [] = None"
| "scanstring (c # s) =
     (if c = 34 then Some ([], s)
      else if c = 92 then
        (case s of
           [] \<Rightarrow> None
         | e # t \<Rightarrow>
             if e = 117 then
               (case decode_uXXXX t of
                  None \<Rightarrow> None
                | Some uni \<Rightarrow>
                    if 0xD800 \<le> uni \<and> uni \<le> 0xDBFF \<and> take 2 (drop 4 t) = [92, 117] then
                      (case decode_uXXXX (drop 6 t) of
                         None \<Rightarrow> None
                       | Some uni2 \<Rightarrow>
                           if 0xDC00 \<le> uni2 \<and> uni2 \<le> 0xDFFF
                           then consc (0x10000 + (uni - 0xD800) * 1024 + (uni2 - 0xDC00))
                                  (scanstring (drop 10 t))
                           else consc uni (scanstring (drop 4 t)))
                    else consc uni (scanstring (drop 4 t)))
             else (case unescape e of
                     None \<Rightarrow> None
                   | Some ch \<Rightarrow> consc ch (scanstring t)))
      else if c < 32 then None
      else consc c (scanstring s))"

definition int_of_digits :: "pystr \<Rightarrow> int" where
  "int_of_digits ds = int (foldl (\<lambda>a d. 10 * a + (d - 48)) 0 ds)"

text \<open>
  \<open>NUMBER_RE\<close>, that is \<open>(-?(?:0|[1-9][0-9]*))(\.[0-9]+)?([eE][-+]?[0-9]+)?\<close>: the integer
  part, the fraction and the exponent.  A match with neither fraction nor exponent is an
  \<open>int\<close>; any other is \<open>float\<close> of the matched text, which is the parameter \<open>pf\<close>.
\<close>

definition match_int_part :: "pystr \<Rightarrow> (pystr \<times> pystr) option" where
  "match_int_part s =
     (case s of
        [] \<Rightarrow> None
      | d # r \<Rightarrow>
          if d = 48 then Some ([48], r)
          else if 49 \<le> d \<and> d \<le> 57 then Some (d # takeWhile is_digit r, dropWhile is_digit r)
          else None)"

definition match_frac :: "pystr \<Rightarrow> pystr \<times> pystr" where
  "match_frac s =
     (case s of
        c # d # r \<Rightarrow>
          if c = 46 \<and> is_digit d
          then (c # d # takeWhile is_digit r, dropWhile is_digit r)
          else ([], s)
      | _ \<Rightarrow> ([], s))"

definition match_exp :: "pystr \<Rightarrow> pystr \<times> pystr" where
  "match_exp s =
     (case s of
        e # r \<Rightarrow>
          if e = 101 \<or> e = 69 then
            (case r of
               c # d # q \<Rightarrow>
                 if (c = 43 \<or> c = 45) \<and> is_digit d
                 then (e # c # d # takeWhile is_digit q, dropWhile is_digit q)
                 else if is_digit c
                 then (e # c # takeWhile is_digit (d # q), dropWhile is_digit (d # q))
                 else ([], s)
             | [c] \<Rightarrow> if is_digit c then ([e, c], []) else ([], s)
             | [] \<Rightarrow> ([], s))
          else ([], s)
      | [] \<Rightarrow> ([], s))"

definition match_number :: "(pystr \<Rightarrow> 'f pyfloat) \<Rightarrow> pystr \<Rightarrow> ('f json \<times> pystr) option" where
  "match_number pf s =
     (let sign = (case s of c # r \<Rightarrow> if c = 45 then [c] else [] | [] \<Rightarrow> []) in
      case match_int_part (drop (length sign) s) of
        None \<Rightarrow> None
      | Some (ip, r1) \<Rightarrow>
          (let (frac, r2) = match_frac r1; (ex, r3) = match_exp r2 in
           if frac = [] \<and> ex = []
           then Some (JInt (if sign = [] then int_of_digits ip else - int_of_digits ip), r3)
           else Some (JFloat (pf (sign @ ip @ frac @ ex)), r3)))"

text \<open>
  \<open>scan_once\<close>, \<open>JSONArray\<close> and \<open>JSONObject\<close>.  They call each other on what is left of
  the input, so the recursion runs on a counter that \<open>json_decode\<close> sets from the length
  of the input.  The pairs of an object go through \<open>dict\<close>: a repeated key keeps its
  first place and its last value.
\<close>

fun scan_once :: "(pystr \<Rightarrow> 'f pyfloat) \<Rightarrow> nat \<Rightarrow> pystr \<Rightarrow> ('f json \<times> pystr) option"
  and scan_elems :: "(pystr \<Rightarrow> 'f pyfloat) \<Rightarrow> nat \<Rightarrow> pystr \<Rightarrow> ('f json list \<times> pystr) option"
  and scan_members ::
    "(pystr \<Rightarrow> 'f pyfloat) \<Rightarrow> nat \<Rightarrow> pystr \<Rightarrow> ((pystr \<times> 'f json) list \<times> pystr) option" where
  "scan_once pf 0 s = None"
| "scan_once pf (Suc n) s =
     (case s of
        [] \<Rightarrow> None
      | c # r \<Rightarrow>
          if c = 34 then map_option (apfst JStr) (scanstring r)
          else if c = 123 then
            (case skip_ws r of
               [] \<Rightarrow> None
             | d # r' \<Rightarrow>
                 if d = 125 then Some (JObject [], r')
                 else map_option (apfst (\<lambda>pairs. JObject (dict_of_items pairs)))
                        (scan_members pf n (d # r')))
          else if c = 91 then
            (case skip_ws r of
               [] \<Rightarrow> None
             | d # r' \<Rightarrow>
                 if d = 93 then Some (JArray [], r')
                 else map_option (apfst JArray) (scan_elems pf n (d # r')))
          else if c = 110 \<and> take 3 r = [117, 108, 108] then Some (JNull, drop 3 r)
          else if c = 116 \<and> take 3 r = [114, 117, 101] then Some (JBool True, drop 3 r)
          else if c = 102 \<and> take 4 r = [97, 108, 115, 101] then Some (JBool False, drop 4 r)
          else
            (case match_number pf s of
               Some res \<Rightarrow> Some res
             | None \<Rightarrow>
                 if c = 78 \<and> take 2 r = [97, 78] then Some (JFloat NaN, drop 2 r)
                 else if c = 73 \<and> take 7 r = [110, 102, 105, 110, 105, 116, 121]
                 then Some (JFloat PosInf, drop 7 r)
                 else if c = 45 \<and> take 8 r = [73, 110, 102, 105, 110, 105, 116, 121]
                 then Some (JFloat NegInf, drop 8 r)
                 else None))"
| "scan_elems pf 0 s = None"
| "scan_elems pf (Suc n) s =
     (case scan_once pf n s of
        None \<Rightarrow> None
      | Some (v, r) \<Rightarrow>
          (case skip_ws r of
             [] \<Rightarrow> None
           | d # r' \<Rightarrow>
               if d = 93 then Some ([v], r')
               else if d = 44 then consc v (scan_elems pf n (skip_ws r'))
               else None))"
| "scan_members pf 0 s = None"
| "scan_members pf (Suc n) s =
     (case s of
        [] \<Rightarrow> None
      | q # r \<Rightarrow>
          if q \<noteq> 34 then None
          else
            (case scanstring r of
               None \<Rightarrow> None
             | Some (k, r1) \<Rightarrow>
                 (case skip_ws r1 of
                    [] \<Rightarrow> None
                  | c # r2 \<Rightarrow>
                      if c \<noteq> 58 then None
                      else
                        (case scan_once pf n (skip_ws r2) of
                           None \<Rightarrow> None
                         | Some (v, r3) \<Rightarrow>
                             (case skip_ws r3 of
                                [] \<Rightarrow> None
                              | d # r4 \<Rightarrow>
                                  if d = 125 then Some ([(k, v)], r4)
                                  else if d = 44
                                  then consc (k, v) (scan_members pf n (skip_ws r4))
                                  else None)))))"

text \<open>
  \<open>JSONDecoder.decode\<close>: white space, one value, white space, and nothing else.
\<close>

definition scan_fuel :: "pystr \<Rightarrow> nat" where
  "scan_fuel s = 2 * length s + 1"

definition json_decode :: "(pystr \<Rightarrow> 'f pyfloat) \<Rightarrow> pystr \<Rightarrow> exn + 'f json" where
  "json_decode pf s =
     (case scan_once pf (scan_fuel s) (skip_ws s) of
        None \<Rightarrow> Inl JSONDecodeError
      | Some (v, r) \<Rightarrow> if skip_ws r = [] then Inr v else Inl JSONDecodeError)"

text \<open>
  \<open>json.loads\<close> on \<open>bytes\<close> decodes them first, in the encoding it detects and with the
  error handler \<open>surrogatepass\<close>; that step is the parameter \<open>dec\<close>.
\<close>

definition json_loads_bytes ::
  "(byte list \<Rightarrow> exn + pystr) \<Rightarrow> (pystr \<Rightarrow> 'f pyfloat) \<Rightarrow> byte list \<Rightarrow> exn + 'f json" where
  "json_loads_bytes dec pf b = (case dec b of Inl e \<Rightarrow> Inl e | Inr s \<Rightarrow> json_decode pf s)"

text \<open>The library of the handler with this decoder as its \<open>json.loads\<close>.\<close>

definition python_lib ::
  "(byte list \<Rightarrow> exn + pystr) \<Rightarrow> (pystr \<Rightarrow> 'f pyfloat) \<Rightarrow> ('f \<Rightarrow> pystr) \<Rightarrow> (pystr \<Rightarrow> pystr) \<Rightarrow>
   'f pylib" where
  "python_lib dec pf fr sr =
     \<lparr>json_loads = json_loads_bytes dec pf, float_repr = fr, str_repr = sr\<rparr>"

section \<open>What the round trip is stated with\<close>

text \<open>The text that \<open>json.dumps\<close> writes for a value that \<open>json.loads\<close> returned.\<close>

fun json_text :: "('f \<Rightarrow> pystr) \<Rightarrow> 'f json \<Rightarrow> pystr" where
  "json_text fr JNull = lit ''null''"
| "json_text fr (JBool b) = (if b then lit ''true'' else lit ''false'')"
| "json_text fr (JInt i) = int_repr i"
| "json_text fr (JFloat x) = floatstr fr x"
| "json_text fr (JStr s) = encode_basestring s"
| "json_text fr (JArray xs) = lit ''['' @ join (lit '', '') (map (json_text fr) xs) @ lit '']''"
| "json_text fr (JObject kvs) =
     lit ''{'' @
     join (lit '', '')
       (map (\<lambda>kv. encode_basestring (fst kv) @ lit '': '' @ json_text fr (snd kv)) kvs) @
     lit ''}''"

text \<open>A \<open>dict\<close> has no repeated key.\<close>

fun wf_json :: "'f json \<Rightarrow> bool" where
  "wf_json (JArray xs) = list_all wf_json xs"
| "wf_json (JObject kvs) = (distinct (map fst kvs) \<and> list_all (\<lambda>kv. wf_json (snd kv)) kvs)"
| "wf_json v = True"



section \<open>Concrete inputs\<close>

text \<open>
  A library for evaluating the handler on concrete requests.  Its \<open>json.loads\<close> is the
  decoder above on UTF-8 bodies; its floats are the whole numbers, printed as \<open>2.0\<close>.
  The loggers are the module's logger under \<open>LOG_LEVEL=INFO\<close> and \<open>LOG_LEVEL=WARNING\<close>.
\<close>

definition ascii :: "string \<Rightarrow> byte list" where
  "ascii s = map of_char s"

definition whole_float :: "pystr \<Rightarrow> nat pyfloat" where
  "whole_float s = Finite (nat (int_of_digits (takeWhile is_digit s)))"

definition whole_repr :: "nat \<Rightarrow> pystr" where
  "whole_repr n = digits n @ [46, 48]"

definition utf8_lib :: "nat pylib" where
  "utf8_lib = python_lib bytes_decode_utf8 whole_float whole_repr id"

definition info_logger :: logger where
  "info_logger = \<lparr>logger_name = APP_NAME, level = 20, parent_level = 30\<rparr>"

definition warning_logger :: logger where
  "warning_logger = \<lparr>logger_name = APP_NAME, level = 30, parent_level = 30\<rparr>"

section \<open>Properties of the encoder, the logger and the ladder\<close>

lemma collect_map_eq:
  "(\<And>x. x \<in> set xs \<Longrightarrow> f x = Inr (g x)) \<Longrightarrow> collect (map f xs) = Inr (map g xs)"
  by (induction xs) simp_all

lemma json_encode_of_json_text: "json_encode fr (of_json v) = Inr (json_text fr v)"
proof (induction v)
  case (JArray xs)
  have "collect (map (json_encode fr) (map of_json xs)) = Inr (map (json_text fr) xs)"
    unfolding map_map by (rule collect_map_eq) (use JArray in auto)
  then show ?case by simp
next
  case (JObject kvs)
  let ?f = "\<lambda>kv. case key_str fr (fst kv) of
                           Inl e \<Rightarrow> Inl e
                         | Inr k \<Rightarrow>
                             (case json_encode fr (snd kv) of
                                Inl e \<Rightarrow> Inl e
                              | Inr s \<Rightarrow> Inr (encode_basestring k @ lit '': '' @ s))"
  have "collect (map (?f \<circ> map_prod PStr of_json) kvs) =
      Inr (map (\<lambda>kv. encode_basestring (fst kv) @ lit '': '' @ json_text fr (snd kv)) kvs)"
  proof (rule collect_map_eq)
    fix x assume x: "x \<in> set kvs"
    obtain k v where kv: "x = (k, v)" by (cases x)
    with x JObject have "json_encode fr (of_json v) = Inr (json_text fr v)" by fastforce
    then show "(?f \<circ> map_prod PStr of_json) x =
        Inr (encode_basestring (fst x) @ lit '': '' @ json_text fr (snd x))"
      by (simp add: kv key_str_def)
  qed
  then show ?case by (simp add: map_map)
qed simp_all

lemma json_encode_of_json: "\<exists>s. json_encode fr (of_json v) = Inr s"
  by (simp add: json_encode_of_json_text)

lemma logger_info_extra:
  "logger_info lg m (log_extra c h t s) =
     Inr (if isEnabledFor lg INFO
          then [\<lparr>rec_name = logger_name lg, levelno = INFO, levelname = ''INFO'', msg = m,
                  extra = log_extra c h t s\<rparr>]
          else [])"
  by (simp add: logger_info_def makeRecord_def log_extra_def reserved_attrs_def)

lemma decode_body_cases:
  "decode_body lib request =
     (case json_loads lib (req_body request) of
        Inr v \<Rightarrow> Inr (of_json v, ''json'')
      | Inl e \<Rightarrow> (case utf8_decode (req_body request) of
                    Some s \<Rightarrow> Inr (PStr s, ''text'')
                  | None \<Rightarrow> Inr (PBytes (req_body request), ''bytes'')))"
  by (simp add: decode_body_def request_json_def request_body_def bytes_decode_utf8_def
      split: sum.splits option.splits)

lemma decode_body_total: "\<exists>r. decode_body lib request = Inr r"
  by (simp add: decode_body_cases split: sum.splits option.splits)

lemma serialize_body_Inr:
  "serialize_body lib body =
     Inr (case json_dumps lib body of Inr s \<Rightarrow> s | Inl e \<Rightarrow> py_str lib body)"
  by (simp add: serialize_body_def split: sum.splits)

lemma receive_webhook_eq:
  assumes "decode_body lib request = Inr (body, body_type)"
    and "serialize_body lib body = Inr s"
  shows "receive_webhook lib lg request =
     Inr (if isEnabledFor lg INFO
          then [\<lparr>rec_name = logger_name lg, levelno = INFO, levelname = ''INFO'',
                  msg = ''Received webhook event'',
                  extra = log_extra (map_option host (req_client request))
                            (dict_of_items (req_headers request)) body_type s\<rparr>]
          else [],
          JSONResponse ack)"
proof -
  have c: "(case req_client request of None \<Rightarrow> None | Some a \<Rightarrow> Some (host a)) =
        map_option host (req_client request)"
    by (simp split: option.splits)
  show ?thesis
    unfolding receive_webhook_def Let_def c using assms
    by (simp add: logger_info_extra)
qed

lemma decode_body_tags:
  "decode_body lib request = Inr (body, body_type) \<Longrightarrow>
   body_type = ''json'' \<or> body_type = ''text'' \<or> body_type = ''bytes''"
  by (auto simp: decode_body_cases split: sum.splits option.splits)

lemma json_dumps_decoded:
  assumes "decode_body lib request = Inr (body, body_type)"
  shows "\<exists>s. json_dumps lib body = Inr s"
  using assms json_encode_of_json [of "float_repr lib"]
  by (auto simp: decode_body_cases json_dumps_def split: sum.splits option.splits)

section \<open>The decoder reads what the encoder writes\<close>




lemma scanstring_encode_basestring:
  "encode_basestring s @ rest = 34 # concat (map escape_char s) @ 34 # rest"
  by (simp add: encode_basestring_def)














lemma skip_ws_not_ws [simp]: "\<not> is_ws c \<Longrightarrow> skip_ws (c # t) = c # t"
  by (simp add: skip_ws_def)

lemma skip_ws_space [simp]: "skip_ws (32 # t) = skip_ws t"
  by (simp add: skip_ws_def is_ws_def)

lemma skip_ws_Nil [simp]: "skip_ws [] = []"
  by (simp add: skip_ws_def)










lemma set_update_subset: "set (AList.update k v al) \<subseteq> insert (k, v) (set al)"
  by (induction al) auto

lemma foldl_update_props:
  "distinct (map fst acc) \<Longrightarrow>
   distinct (map fst (foldl (\<lambda>d kv. AList.update (fst kv) (snd kv) d) acc kvs)) \<and>
   set (foldl (\<lambda>d kv. AList.update (fst kv) (snd kv) d) acc kvs) \<subseteq> set acc \<union> set kvs"
proof (induction kvs arbitrary: acc)
  case Nil
  then show ?case by simp
next
  case (Cons kv kvs)
  have "distinct (map fst (AList.update (fst kv) (snd kv) acc))"
    using Cons.prems by (simp add: distinct_update)
  from Cons.IH [OF this] set_update_subset [of "fst kv" "snd kv" acc] show ?case
    by auto
qed

lemma dict_of_items_props:
  "distinct (map fst (dict_of_items kvs))" "set (dict_of_items kvs) \<subseteq> set kvs"
  using foldl_update_props [of "[]" kvs] by (simp_all add: dict_of_items_def)

lemma wf_json_dict:
  assumes "list_all (\<lambda>kv. wf_json (snd kv)) kvs"
  shows "wf_json (JObject (dict_of_items kvs))"
  using assms dict_of_items_props [of kvs] by (auto simp: list_all_iff)







section \<open>The claims\<close>

text \<open>
  C1.  Every delivered request is answered with status 200 and the body
  \<open>{"received": true, "status": "ok"}\<close>, whatever the library parses, whatever the level
  of the logger and whatever the body holds: no exception leaves the handler.
\<close>

theorem receive_webhook_always_200:
  "\<exists>emitted. receive_webhook lib lg request =
     Inr (emitted,
          \<lparr>status_code = 200,
           content = PDict [(PStr (lit ''received''), PBool True),
                            (PStr (lit ''status''), PStr (lit ''ok''))]\<rparr>)"
proof -
  obtain body body_type where d: "decode_body lib request = Inr (body, body_type)"
    using decode_body_total [of lib request] by auto
  obtain s where s: "serialize_body lib body = Inr s"
    by (simp add: serialize_body_Inr)
  show ?thesis
    unfolding receive_webhook_eq [OF d s] by (simp add: JSONResponse_def ack_def)
qed







text \<open>
  C5, as amended.  A request handled to completion selects exactly one of the tags
  \<open>json\<close>, \<open>text\<close> and \<open>bytes\<close> and makes one \<open>logger.info\<close> call: one record is emitted
  when the logger is enabled for \<open>INFO\<close> and none otherwise, and the \<open>body_type\<close> of an
  emitted record is the tag the ladder chose.
\<close>

theorem log_call_matches_tag:
  assumes "receive_webhook lib lg request = Inr (emitted, resp)"
  shows "\<exists>body body_type.
           decode_body lib request = Inr (body, body_type) \<and>
           (body_type = ''json'' \<or> body_type = ''text'' \<or> body_type = ''bytes'') \<and>
           length emitted = (if isEnabledFor lg INFO then 1 else 0) \<and>
           list_all (\<lambda>r. map_of (extra r) ''body_type'' = Some (PStr (lit body_type))) emitted"
proof -
  obtain body body_type where d: "decode_body lib request = Inr (body, body_type)"
    using decode_body_total [of lib request] by auto
  obtain s where s: "serialize_body lib body = Inr s"
    by (simp add: serialize_body_Inr)
  from assms have "emitted = fst (projr (receive_webhook lib lg request))" by simp
  then show ?thesis
    using d decode_body_tags [OF d]
    by (simp add: receive_webhook_eq [OF d s] log_extra_def)
qed

theorem log_call_matches_tag_witness:
  "receive_webhook utf8_lib info_logger
     \<lparr>req_client = None, req_headers = [], req_body = ascii ''null''\<rparr> =
   Inr ([\<lparr>rec_name = ''bettervoice-webhook'', levelno = 20, levelname = ''INFO'',
           msg = ''Received webhook event'',
           extra = [(''source'', PStr (lit ''bettervoice'')), (''client_ip'', PNone),
                    (''headers'', PDict []), (''body_type'', PStr (lit ''json'')),
                    (''body'', PStr (lit ''null''))]\<rparr>], JSONResponse ack) \<and>
   isEnabledFor info_logger INFO \<and>
   decode_body utf8_lib \<lparr>req_client = None, req_headers = [], req_body = ascii ''null''\<rparr> =
     Inr (PNone, ''json'')"
proof -
  let ?r = "\<lparr>req_client = None, req_headers = [], req_body = ascii ''null''\<rparr>"
  have d: "decode_body utf8_lib ?r = Inr (PNone, ''json'')"
    by code_simp
  have e: "isEnabledFor info_logger INFO"
    by code_simp
  have w: "receive_webhook utf8_lib info_logger ?r =
   Inr ([\<lparr>rec_name = ''bettervoice-webhook'', levelno = 20, levelname = ''INFO'',
           msg = ''Received webhook event'',
           extra = [(''source'', PStr (lit ''bettervoice'')), (''client_ip'', PNone),
                    (''headers'', PDict []), (''body_type'', PStr (lit ''json'')),
                    (''body'', PStr (lit ''null''))]\<rparr>], JSONResponse ack)"
    by code_simp
  show ?thesis
    using log_call_matches_tag [OF w] w e d by simp
qed

text \<open>
  C5 as stated fails: under \<open>LOG_LEVEL=WARNING\<close> the module's logger has level 30, and a
  request is handled to completion with no record emitted.
\<close>

theorem no_record_when_level_is_warning:
  "module_logger ''WARNING'' 30 = Inr warning_logger \<and>
   receive_webhook utf8_lib warning_logger
     \<lparr>req_client = None, req_headers = [], req_body = ascii ''null''\<rparr> =
   Inr ([], JSONResponse ack)"
  by code_simp

text \<open>
  C6.  A record that the handler emits is at level \<open>INFO\<close> and carries exactly the five
  fields \<open>source\<close> (the fixed \<open>bettervoice\<close>), \<open>client_ip\<close> (the host of the client, or
  \<open>None\<close>), \<open>headers\<close> (the dict of the request's header items), \<open>body_type\<close> (the tag of
  the ladder) and \<open>body\<close> (the serialized body).  The witness is a request with a client,
  a repeated header and the body \<open>FF\<close>.
\<close>

theorem log_record_fields:
  assumes "receive_webhook lib lg request = Inr (emitted, resp)"
    and "r \<in> set emitted"
  shows "\<exists>body body_type s.
           decode_body lib request = Inr (body, body_type) \<and>
           serialize_body lib body = Inr s \<and>
           levelno r = INFO \<and> levelname r = ''INFO'' \<and> rec_name r = logger_name lg \<and>
           msg r = ''Received webhook event'' \<and>
           extra r =
             [(''source'', PStr (lit ''bettervoice'')),
              (''client_ip'',
               (case req_client request of None \<Rightarrow> PNone | Some a \<Rightarrow> PStr (host a))),
              (''headers'', PDict (map (map_prod PStr PStr) (dict_of_items (req_headers request)))),
              (''body_type'', PStr (lit body_type)),
              (''body'', PStr s)]"
proof -
  obtain body body_type where d: "decode_body lib request = Inr (body, body_type)"
    using decode_body_total [of lib request] by auto
  obtain s where s: "serialize_body lib body = Inr s"
    by (simp add: serialize_body_Inr)
  from assms(1) have "emitted = fst (projr (receive_webhook lib lg request))" by simp
  with assms(2) have
    "r = \<lparr>rec_name = logger_name lg, levelno = INFO, levelname = ''INFO'',
          msg = ''Received webhook event'',
          extra = log_extra (map_option host (req_client request))
                    (dict_of_items (req_headers request)) body_type s\<rparr>"
    by (simp add: receive_webhook_eq [OF d s] split: if_splits)
  then show ?thesis
    using d s by (simp add: log_extra_def split: option.splits)
qed

theorem log_record_fields_witness:
  "receive_webhook utf8_lib info_logger
     \<lparr>req_client = Some \<lparr>host = lit ''10.0.0.7'', port = 443\<rparr>,
      req_headers = [(lit ''x-a'', lit ''1''), (lit ''x-b'', lit ''2''), (lit ''x-a'', lit ''3'')],
      req_body = [0xFF]\<rparr> =
   Inr ([\<lparr>rec_name = ''bettervoice-webhook'', levelno = 20, levelname = ''INFO'',
           msg = ''Received webhook event'',
           extra = [(''source'', PStr (lit ''bettervoice'')),
                    (''client_ip'', PStr (lit ''10.0.0.7'')),
                    (''headers'', PDict [(PStr (lit ''x-a''), PStr (lit ''3'')),
                                         (PStr (lit ''x-b''), PStr (lit ''2''))]),
                    (''body_type'', PStr (lit ''bytes'')),
                    (''body'', PStr ([34, 98, 39, 92, 92] @ lit ''xff'' @ [39, 34]))]\<rparr>],
        JSONResponse ack)"
proof -
  let ?r = "\<lparr>req_client = Some \<lparr>host = lit ''10.0.0.7'', port = 443\<rparr>,
      req_headers = [(lit ''x-a'', lit ''1''), (lit ''x-b'', lit ''2''), (lit ''x-a'', lit ''3'')],
      req_body = [0xFF]\<rparr>"
  let ?rec = "\<lparr>rec_name = ''bettervoice-webhook'', levelno = 20, levelname = ''INFO'',
           msg = ''Received webhook event'',
           extra = [(''source'', PStr (lit ''bettervoice'')),
                    (''client_ip'', PStr (lit ''10.0.0.7'')),
                    (''headers'', PDict [(PStr (lit ''x-a''), PStr (lit ''3'')),
                                         (PStr (lit ''x-b''), PStr (lit ''2''))]),
                    (''body_type'', PStr (lit ''bytes'')),
                    (''body'', PStr ([34, 98, 39, 92, 92] @ lit ''xff'' @ [39, 34]))]\<rparr>
      :: nat log_record"
  have w: "receive_webhook utf8_lib info_logger ?r = Inr ([?rec], JSONResponse ack)"
    by code_simp
  have "?rec \<in> set [?rec]" by simp
  from log_record_fields [OF w this] w show ?thesis
    by simp
qed

text \<open>
  C7.  A request whose \<open>request.client\<close> is \<open>None\<close> is answered with the fixed 200
  response; the one \<open>logger.info\<close> call is made as for any request, and the
  \<open>client_ip\<close> of an emitted record is \<open>None\<close>.
\<close>

theorem absent_client_address:
  assumes "req_client request = None"
  shows "\<exists>emitted. receive_webhook lib lg request = Inr (emitted, JSONResponse ack) \<and>
           length emitted = (if isEnabledFor lg INFO then 1 else 0) \<and>
           list_all (\<lambda>r. map_of (extra r) ''client_ip'' = Some PNone) emitted"
proof -
  obtain body body_type where d: "decode_body lib request = Inr (body, body_type)"
    using decode_body_total [of lib request] by auto
  obtain s where s: "serialize_body lib body = Inr s"
    by (simp add: serialize_body_Inr)
  show ?thesis
    using assms by (simp add: receive_webhook_eq [OF d s] log_extra_def)
qed

theorem absent_client_address_witness:
  "req_client \<lparr>req_client = None, req_headers = [], req_body = ascii ''hi''\<rparr> = None \<and>
   receive_webhook utf8_lib info_logger
     \<lparr>req_client = None, req_headers = [], req_body = ascii ''hi''\<rparr> =
   Inr ([\<lparr>rec_name = ''bettervoice-webhook'', levelno = 20, levelname = ''INFO'',
           msg = ''Received webhook event'',
           extra = [(''source'', PStr (lit ''bettervoice'')), (''client_ip'', PNone),
                    (''headers'', PDict []), (''body_type'', PStr (lit ''text'')),
                    (''body'', PStr ([34] @ lit ''hi'' @ [34]))]\<rparr>],
        \<lparr>status_code = 200,
         content = PDict [(PStr (lit ''received''), PBool True),
                          (PStr (lit ''status''), PStr (lit ''ok''))]\<rparr>)"
proof -
  let ?r = "\<lparr>req_client = None, req_headers = [], req_body = ascii ''hi''\<rparr>"
  have c: "req_client ?r = None" by simp
  have w: "receive_webhook utf8_lib info_logger ?r =
   Inr ([\<lparr>rec_name = ''bettervoice-webhook'', levelno = 20, levelname = ''INFO'',
           msg = ''Received webhook event'',
           extra = [(''source'', PStr (lit ''bettervoice'')), (''client_ip'', PNone),
                    (''headers'', PDict []), (''body_type'', PStr (lit ''text'')),
                    (''body'', PStr ([34] @ lit ''hi'' @ [34]))]\<rparr>],
        \<lparr>status_code = 200,
         content = PDict [(PStr (lit ''received''), PBool True),
                          (PStr (lit ''status''), PStr (lit ''ok''))]\<rparr>)"
    by code_simp
  from absent_client_address [OF c, of utf8_lib info_logger] w show ?thesis
    by simp
qed

text \<open>
  C8.  For every value of \<open>body\<close> the serialization of lines 69 to 73 returns a
  \<open>str\<close>: the result of \<open>json.dumps\<close> when it returns, and \<open>str(body)\<close> when it raises;
  a \<open>bytes\<close> object is rendered through \<open>default=str\<close> instead of raising.  The witness
  evaluates a dict with a \<open>bytes\<close> key, on which \<open>json.dumps\<close> raises \<open>TypeError\<close>, and a
  list.
\<close>

theorem serialize_body_never_raises:
  "(\<exists>s. serialize_body lib body = Inr s) \<and>
   serialize_body lib body =
     Inr (case json_dumps lib body of Inr js \<Rightarrow> js | Inl e \<Rightarrow> py_str lib body) \<and>
   json_dumps lib (PBytes b) = Inr (encode_basestring (py_str lib (PBytes b)))"
  by (simp add: serialize_body_Inr json_dumps_def py_str_def)

theorem serialize_body_never_raises_witness:
  "json_dumps utf8_lib (PDict [(PBytes [0x6B], PInt 1)]) = Inl TypeError \<and>
   serialize_body utf8_lib (PDict [(PBytes [0x6B], PInt 1)]) =
     Inr (lit ''{b'' @ [39, 107, 39] @ lit '': 1}'') \<and>
   json_dumps utf8_lib (PBytes [0x6B]) = Inr ([34, 98, 39, 107, 39, 34]) \<and>
   serialize_body utf8_lib (PList [PInt (-12), PNone]) = Inr (lit ''[-12, null]'')"
proof -
  have a: "json_dumps utf8_lib (PDict [(PBytes [0x6B], PInt 1)]) = Inl TypeError"
    by code_simp
  have r: "py_str utf8_lib (PDict [(PBytes [0x6B], PInt 1)]) =
      lit ''{b'' @ [39, 107, 39] @ lit '': 1}''"
    by code_simp
  have b: "encode_basestring (py_str utf8_lib (PBytes [0x6B])) = [34, 98, 39, 107, 39, 34]"
    by code_simp
  have c: "json_dumps utf8_lib (PList [PInt (-12), PNone]) = Inr (lit ''[-12, null]'')"
    by code_simp
  show ?thesis
    using serialize_body_never_raises [of utf8_lib "PDict [(PBytes [0x6B], PInt 1)]" "[0x6B]"]
      serialize_body_never_raises [of utf8_lib "PList [PInt (-12), PNone]" "[]"]
    by (simp add: a r b c)
qed

text \<open>
  C9.  On every value the ladder produces, \<open>json.dumps\<close> with \<open>default=str\<close> returns, and
  the serialized body is its result: the branch \<open>str(body)\<close> of line 73 is not taken.
\<close>

theorem json_dumps_succeeds_on_decoded:
  assumes "decode_body lib request = Inr (body, body_type)"
  shows "\<exists>s. json_dumps lib body = Inr s \<and> serialize_body lib body = Inr s"
  using json_dumps_decoded [OF assms] by (auto simp: serialize_body_def)

theorem json_dumps_succeeds_on_decoded_witness:
  "decode_body utf8_lib \<lparr>req_client = None, req_headers = [], req_body = [0xFF]\<rparr> =
     Inr (PBytes [0xFF], ''bytes'') \<and>
   json_dumps utf8_lib (PBytes [0xFF]) = Inr ([34, 98, 39, 92, 92] @ lit ''xff'' @ [39, 34]) \<and>
   serialize_body utf8_lib (PBytes [0xFF]) = Inr ([34, 98, 39, 92, 92] @ lit ''xff'' @ [39, 34])"
proof -
  let ?r = "\<lparr>req_client = None, req_headers = [], req_body = [0xFF]\<rparr>"
  have d: "decode_body utf8_lib ?r = Inr (PBytes [0xFF], ''bytes'')"
    by code_simp
  have j: "json_dumps utf8_lib (PBytes [0xFF]) =
      Inr ([34, 98, 39, 92, 92] @ lit ''xff'' @ [39, 34])"
    by code_simp
  show ?thesis
    using json_dumps_succeeds_on_decoded [OF d] d j by simp
qed

text \<open>
  C10.  The pair of the decoded body and its tag is a function of the bytes of the body:
  two requests with the same bytes decode alike, whatever their headers and client
  address.  The witness decodes a JSON body once with a \<open>content-type\<close> header and a
  client and once with neither.
\<close>

theorem decode_body_depends_on_body_only:
  assumes "req_body r1 = req_body r2"
  shows "decode_body lib r1 = decode_body lib r2"
  unfolding decode_body_cases assms ..

theorem decode_body_depends_on_body_only_witness:
  "decode_body utf8_lib
     \<lparr>req_client = Some \<lparr>host = lit ''10.0.0.7'', port = 443\<rparr>,
      req_headers = [(lit ''content-type'', lit ''text/plain'')],
      req_body = ascii ''[1, 2]''\<rparr> =
   decode_body utf8_lib \<lparr>req_client = None, req_headers = [], req_body = ascii ''[1, 2]''\<rparr> \<and>
   decode_body utf8_lib \<lparr>req_client = None, req_headers = [], req_body = ascii ''[1, 2]''\<rparr> =
     Inr (PList [PInt 1, PInt 2], ''json'')"
proof -
  have "decode_body utf8_lib \<lparr>req_client = None, req_headers = [], req_body = ascii ''[1, 2]''\<rparr> =
     Inr (PList [PInt 1, PInt 2], ''json'')"
    by code_simp
  moreover have "decode_body utf8_lib
     \<lparr>req_client = Some \<lparr>host = lit ''10.0.0.7'', port = 443\<rparr>,
      req_headers = [(lit ''content-type'', lit ''text/plain'')],
      req_body = ascii ''[1, 2]''\<rparr> =
   decode_body utf8_lib \<lparr>req_client = None, req_headers = [], req_body = ascii ''[1, 2]''\<rparr>"
    by (rule decode_body_depends_on_body_only) simp
  ultimately show ?thesis by simp
qed

end
